theory Spec2Isabelle
  imports Main
begin

section \<open>Constants and data model (src/src/main.ts, lines 33-104)\<close>

text \<open>
  JavaScript numbers hold only integer values in this program (grid coordinates, ids,
  scores in steps of 100), so they are modelled as \<open>int\<close>. The negation \<open>-cube.y\<close> of a
  zero coordinate yields the float \<open>-0\<close>, which \<open>===\<close> and \<open>+\<close> treat as \<open>0\<close>.
\<close>

definition GRID_WIDTH :: int where
  "GRID_WIDTH = 10"

definition GRID_HEIGHT :: int where
  "GRID_HEIGHT = 20"

definition X_SPAWN_POINT :: int where
  "X_SPAWN_POINT = GRID_WIDTH div 2"

record Cube =
  cube_x :: int
  cube_y :: int

record Tetrominos =
  t_id :: int
  cubes :: "Cube list"
  color :: string
  t_x :: int
  t_y :: int

record State =
  gameEnd :: bool
  gameBoard :: "Tetrominos list"
  currentTetrominos :: Tetrominos
  score :: int
  highScore :: int

text \<open>
  The three subclasses of the abstract class \<open>Action\<close>. Every action carries the fields
  \<open>x\<close> and \<open>y\<close>; \<open>RotateAction\<close> and \<open>Restart\<close> pass \<open>0, 0\<close> to the super constructor.
\<close>

datatype Action = MoveAction int int | RotateAction | Restart

fun action_x :: "Action \<Rightarrow> int" where
  "action_x (MoveAction dx dy) = dx"
| "action_x RotateAction = 0"
| "action_x Restart = 0"

fun action_y :: "Action \<Rightarrow> int" where
  "action_y (MoveAction dx dy) = dy"
| "action_y RotateAction = 0"
| "action_y Restart = 0"

definition mkCube :: "int \<Rightarrow> int \<Rightarrow> Cube" where
  "mkCube a b = \<lparr>cube_x = a, cube_y = b\<rparr>"

definition defaultTetrominos :: "Tetrominos list" where
  "defaultTetrominos =
    [\<lparr>t_id = 1, cubes = [mkCube 0 0, mkCube 0 (-1), mkCube 1 (-1), mkCube 2 (-1)],
       color = ''green'', t_x = X_SPAWN_POINT, t_y = 0\<rparr>,
     \<lparr>t_id = 1, cubes = [mkCube 0 0, mkCube 0 (-1), mkCube (-1) (-1), mkCube (-2) (-1)],
       color = ''white'', t_x = X_SPAWN_POINT, t_y = 0\<rparr>,
     \<lparr>t_id = 1, cubes = [mkCube 0 0, mkCube 1 0, mkCube 1 (-1), mkCube 2 (-1)],
       color = ''red'', t_x = X_SPAWN_POINT, t_y = 0\<rparr>,
     \<lparr>t_id = 1, cubes = [mkCube 0 0, mkCube (-1) 0, mkCube (-1) (-1), mkCube (-2) (-1)],
       color = ''pink'', t_x = X_SPAWN_POINT, t_y = 0\<rparr>,
     \<lparr>t_id = 1, cubes = [mkCube 0 0, mkCube 0 (-1), mkCube 1 0, mkCube 1 (-1)],
       color = ''blue'', t_x = X_SPAWN_POINT, t_y = 0\<rparr>,
     \<lparr>t_id = 1, cubes = [mkCube 0 0, mkCube 1 0, mkCube 2 0, mkCube 3 0],
       color = ''yellow'', t_x = X_SPAWN_POINT, t_y = 0\<rparr>,
     \<lparr>t_id = 1, cubes = [mkCube 0 0, mkCube 0 (-1), mkCube 1 (-1), mkCube (-1) (-1)],
       color = ''purple'', t_x = X_SPAWN_POINT, t_y = 0\<rparr>]"

section \<open>State (lines 159-180)\<close>

text \<open>
  \<open>createTetrominos\<close> draws \<open>randIndex = Math.floor(Math.random() * 7)\<close>, a number in
  \<open>0..6\<close>. The draw is the explicit argument \<open>randIndex\<close>; the model describes the
  program for \<open>randIndex < 7\<close>, the only values the source can draw.
\<close>

definition createTetrominos :: "nat \<Rightarrow> int \<Rightarrow> Tetrominos" where
  "createTetrominos randIndex nextId = (defaultTetrominos ! randIndex)\<lparr>t_id := nextId + 1\<rparr>"

definition initialGameBoard :: "Tetrominos list" where
  "initialGameBoard = []"

text \<open>
  \<open>initialState\<close> is a module-level constant: its piece is drawn once, when the module
  is loaded. \<open>draw0\<close> is that one draw.
\<close>

definition initialState :: "nat \<Rightarrow> State" where
  "initialState draw0 =
    \<lparr>gameEnd = False, gameBoard = initialGameBoard,
     currentTetrominos = createTetrominos draw0 1, score = 0, highScore = 0\<rparr>"

section \<open>Geometry predicates (lines 186-265)\<close>

text \<open>
  \<open>Array.prototype.reduce\<close> without an initial value throws a \<open>TypeError\<close> on an empty
  array; otherwise it starts from the first element.
\<close>

datatype error = TypeError

definition lowestYCube :: "Tetrominos \<Rightarrow> error + Cube" where
  "lowestYCube tetromino =
    (case cubes tetromino of
       [] \<Rightarrow> Inl TypeError
     | c # cs \<Rightarrow>
         Inr (foldl (\<lambda>minCube currentCube.
                if cube_y currentCube + t_y tetromino > t_y tetromino + cube_y minCube
                then currentCube else minCube) c cs))"

definition isTouchingFloor :: "Tetrominos \<Rightarrow> error + bool" where
  "isTouchingFloor tetromino =
    (case lowestYCube tetromino of
       Inl e \<Rightarrow> Inl e
     | Inr c \<Rightarrow> Inr (if cube_y c + t_y tetromino < GRID_HEIGHT then False else True))"

definition isInBorder :: "Tetrominos \<Rightarrow> Action \<Rightarrow> bool" where
  "isInBorder tetromino movement =
    list_all (\<lambda>cube.
      let cubeX = t_x tetromino + cube_x cube in
        (cubeX > 1 \<and> cubeX < GRID_WIDTH) \<or>
        (cubeX = 1 \<and> action_x movement = 1) \<or>
        (cubeX = GRID_WIDTH \<and> action_x movement = - 1)) (cubes tetromino)"

definition isColliding :: "State \<Rightarrow> Action \<Rightarrow> bool \<Rightarrow> bool" where
  "isColliding s movement withMovement =
    (let xMovement = (if withMovement then action_x movement else 0);
         yMovement = (if withMovement then action_y movement else 0);
         stackingOffset = (if withMovement then 0 else 1)
     in list_ex (\<lambda>cube.
          let x = t_x (currentTetrominos s) + cube_x cube + xMovement;
              y = t_y (currentTetrominos s) + cube_y cube + yMovement
          in list_ex (\<lambda>tetromino.
               list_ex (\<lambda>boardCube.
                 t_x tetromino + cube_x boardCube = x \<and>
                 t_y tetromino + cube_y boardCube = y + stackingOffset) (cubes tetromino))
               (gameBoard s))
          (cubes (currentTetrominos s)))"

definition isRowFull :: "Tetrominos list \<Rightarrow> int \<Rightarrow> bool" where
  "isRowFull board rowIndex =
    (let colCount = foldl (\<lambda>accumulator tetromino.
           let rowBlocks = filter (\<lambda>cube. t_y tetromino + cube_y cube = rowIndex) (cubes tetromino)
           in accumulator + int (length rowBlocks)) 0 board
     in colCount = GRID_WIDTH)"

definition isColFull :: "Tetrominos list \<Rightarrow> int \<Rightarrow> bool" where
  "isColFull board colIndex =
    (let colCount = foldl (\<lambda>accumulator tetromino.
           let colBlocks = filter (\<lambda>cube. t_x tetromino + cube_x cube = colIndex) (cubes tetromino)
           in accumulator + int (length colBlocks)) 0 board
     in colCount \<ge> GRID_HEIGHT)"

definition isGameEnd :: "State \<Rightarrow> bool" where
  "isGameEnd s =
    (let gridWidth = GRID_WIDTH;
         columns = map (\<lambda>index. int index + 1) [0..<nat gridWidth]
     in if list_ex (\<lambda>col. isColFull (gameBoard s) col) columns then True else False)"

section \<open>Board mutation (lines 269-337)\<close>

definition getFullRows :: "State \<Rightarrow> int list" where
  "getFullRows s =
    (let rowCount = GRID_HEIGHT
     in foldl (\<lambda>fullRows rowIndex.
          let newRowIndex = int rowIndex + 1
          in if isRowFull (gameBoard s) newRowIndex then fullRows @ [newRowIndex] else fullRows)
        [] [0..<nat rowCount])"

definition deleteRow :: "State \<Rightarrow> int list \<Rightarrow> State" where
  "deleteRow s fullRows =
    (let updatedGameBoard = map (\<lambda>tetromino.
           let updatedCubes = filter (\<lambda>cube. \<not> (t_y tetromino + cube_y cube \<in> set fullRows))
                                (cubes tetromino)
           in tetromino\<lparr>cubes := updatedCubes\<rparr>) (gameBoard s);
         movedTetrominos = map (\<lambda>tetromino.
           tetromino\<lparr>t_y := t_y tetromino
                        + int (length (filter (\<lambda>rows. rows > t_y tetromino) fullRows))\<rparr>)
           updatedGameBoard
     in s\<lparr>gameBoard := movedTetrominos, score := score s + 100 * int (length fullRows)\<rparr>)"

definition setTetromino :: "State \<Rightarrow> Action \<Rightarrow> error + bool" where
  "setTetromino s movement =
    (case isTouchingFloor (currentTetrominos s) of
       Inl e \<Rightarrow> Inl e
     | Inr touching \<Rightarrow> Inr (if touching \<or> isColliding s movement False then True else False))"

definition nextTetromino :: "nat \<Rightarrow> State \<Rightarrow> State" where
  "nextTetromino randIndex s =
    s\<lparr>gameBoard := gameBoard s @ [currentTetrominos s],
      currentTetrominos := createTetrominos randIndex (t_id (currentTetrominos s))\<rparr>"

section \<open>Movement, rotation and the transition function (lines 339-414)\<close>

definition rotateCube :: "Cube \<Rightarrow> Cube" where
  "rotateCube cube = \<lparr>cube_x = - cube_y cube, cube_y = cube_x cube\<rparr>"

definition rotatedTetrominosState :: "State \<Rightarrow> State" where
  "rotatedTetrominosState s =
    s\<lparr>currentTetrominos := (currentTetrominos s)\<lparr>cubes := map rotateCube (cubes (currentTetrominos s))\<rparr>\<rparr>"

definition rotateTetrominos :: "State \<Rightarrow> Action \<Rightarrow> State" where
  "rotateTetrominos s rotation =
    (if \<not> (color (currentTetrominos s) = ''blue'')
     then (if \<not> isColliding (rotatedTetrominosState s) rotation False
              \<and> isInBorder (currentTetrominos (rotatedTetrominosState s)) rotation
           then rotatedTetrominosState s
           else s)
     else s)"

definition moveTetrominos :: "State \<Rightarrow> Action \<Rightarrow> error + State" where
  "moveTetrominos s action =
    (case action of
       MoveAction dx dy \<Rightarrow>
         (if \<not> isColliding s action True
          then (case isTouchingFloor (currentTetrominos s) of
                  Inl e \<Rightarrow> Inl e
                | Inr touching \<Rightarrow>
                    let newY = (if touching then 0 else action_y action);
                        newX = (if isInBorder (currentTetrominos s) action then action_x action else 0)
                    in Inr (s\<lparr>currentTetrominos := (currentTetrominos s)
                              \<lparr>t_x := t_x (currentTetrominos s) + newX,
                               t_y := t_y (currentTetrominos s) + newY\<rparr>\<rparr>))
          else Inr s)
     | _ \<Rightarrow> Inr (rotateTetrominos s action))"

text \<open>
  \<open>updateState draw0 s action randIndex\<close>: \<open>draw0\<close> is the draw behind \<open>initialState\<close>,
  \<open>randIndex\<close> the draw that \<open>createTetrominos\<close> makes if this transition locks a piece.
  \<open>Inl TypeError\<close> is the exception thrown out of \<open>lowestYCube\<close>.
\<close>

definition updateState :: "nat \<Rightarrow> State \<Rightarrow> Action \<Rightarrow> nat \<Rightarrow> error + State" where
  "updateState draw0 s action randIndex =
    (if action = Restart
     then Inr ((initialState draw0)
                 \<lparr>highScore := (if score s > highScore s then score s else highScore s)\<rparr>)
     else
       let isEnd = isGameEnd s in
       if isEnd then Inr (s\<lparr>gameEnd := True\<rparr>)
       else
         (case setTetromino s action of
            Inl e \<Rightarrow> Inl e
          | Inr lock \<Rightarrow>
              (case (if lock then Inr (nextTetromino randIndex s) else moveTetrominos s action) of
                 Inl e \<Rightarrow> Inl e
               | Inr updatedState \<Rightarrow>
                   let fullRows = getFullRows s in
                   if length fullRows > 0 then Inr (deleteRow updatedState fullRows)
                   else Inr updatedState)))"

text \<open>
  The game loop is \<open>scan(updateState, initialState)\<close> over the merged action stream: a
  left fold. Each element of the list is an action together with the draw available
  to that transition. An exception ends the run.
\<close>

fun scan :: "nat \<Rightarrow> State \<Rightarrow> (Action \<times> nat) list \<Rightarrow> error + State" where
  "scan draw0 s [] = Inr s"
| "scan draw0 s ((action, randIndex) # rest) =
    (case updateState draw0 s action randIndex of
       Inl e \<Rightarrow> Inl e
     | Inr s' \<Rightarrow> scan draw0 s' rest)"

section \<open>Notions used to state the properties\<close>

text \<open>
  The absolute grid cells \<open>(piece.x + cube.x, piece.y + cube.y)\<close> of all cubes of a list
  of pieces, in board order, with multiplicity.
\<close>

definition absoluteCubes :: "Tetrominos list \<Rightarrow> (int \<times> int) list" where
  "absoluteCubes board =
    concat (map (\<lambda>tetromino. map (\<lambda>cube. (t_x tetromino + cube_x cube, t_y tetromino + cube_y cube))
                  (cubes tetromino)) board)"

text \<open>
  The actions that \<open>main\<close> merges into the stream (lines 463-473): the three key
  movements, the timer's down movement (the same value as the down key), rotation and
  restart.
\<close>

definition streamActions :: "Action list" where
  "streamActions = [MoveAction (- 1) 0, MoveAction 1 0, MoveAction 0 1, RotateAction, Restart]"

text \<open>
  The states of a run: \<open>initialState\<close>, and every state that \<open>updateState\<close> returns from a
  state of the run on an action of the stream, with a draw in \<open>0..6\<close>.
\<close>

inductive reachable :: "nat \<Rightarrow> State \<Rightarrow> bool" for draw0 :: nat where
  reachable_init: "reachable draw0 (initialState draw0)"
| reachable_step: "reachable draw0 s \<Longrightarrow> action \<in> set streamActions \<Longrightarrow> randIndex < 7 \<Longrightarrow>
     updateState draw0 s action randIndex = Inr s' \<Longrightarrow> reachable draw0 s'"

text \<open>
  What the specification says \<open>deleteRow\<close> does to one board piece: the cubes whose
  absolute row is among \<open>rows\<close> are removed, and the anchor row grows by the number of
  elements of \<open>rows\<close> that are strictly greater than it.
\<close>

definition clearedPiece :: "int list \<Rightarrow> Tetrominos \<Rightarrow> Tetrominos" where
  "clearedPiece rows t =
     t\<lparr>cubes := filter (\<lambda>cube. t_y t + cube_y cube \<notin> set rows) (cubes t),
       t_y := t_y t + int (length (filter (\<lambda>r. r > t_y t) rows))\<rparr>"

subsection \<open>Concrete pieces, states and runs\<close>

definition whitePiece :: "int \<Rightarrow> Cube list \<Rightarrow> int \<Rightarrow> int \<Rightarrow> Tetrominos" where
  "whitePiece i cs a b = \<lparr>t_id = i, cubes = cs, color = ''white'', t_x = a, t_y = b\<rparr>"

definition yellowPiece :: "int \<Rightarrow> Cube list \<Rightarrow> int \<Rightarrow> int \<Rightarrow> Tetrominos" where
  "yellowPiece i cs a b = \<lparr>t_id = i, cubes = cs, color = ''yellow'', t_x = a, t_y = b\<rparr>"

definition bluePiece :: "int \<Rightarrow> Cube list \<Rightarrow> int \<Rightarrow> int \<Rightarrow> Tetrominos" where
  "bluePiece i cs a b = \<lparr>t_id = i, cubes = cs, color = ''blue'', t_x = a, t_y = b\<rparr>"

text \<open>
  A run of 45 actions in which every draw is the white piece (index 1). The first piece
  is rotated three times, falls to the floor and locks with cells (5,18), (4,18),
  (4,19), (4,20). The second is rotated twice, moved one column to the right, falls to
  anchor row 18, is rotated once more and locks on the next tick.
\<close>

definition overlapRun :: "(Action \<times> nat) list" where
  "overlapRun =
     replicate 3 (RotateAction, 1) @ replicate 18 (MoveAction 0 1, 1) @ [(MoveAction 0 1, 1)]
     @ replicate 2 (RotateAction, 1) @ [(MoveAction 1 0, 1)] @ replicate 18 (MoveAction 0 1, 1)
     @ [(RotateAction, 1), (MoveAction 0 1, 1)]"

text \<open>The state of that run before its last two actions, that is after 43 of them.\<close>

definition rotateOverlapState :: State where
  "rotateOverlapState =
     \<lparr>gameEnd = False,
      gameBoard = [whitePiece 2 [mkCube 0 0, mkCube (- 1) 0, mkCube (- 1) 1, mkCube (- 1) 2] 5 18],
      currentTetrominos = whitePiece 3 [mkCube 0 0, mkCube 0 1, mkCube 1 1, mkCube 2 1] 6 18,
      score = 0, highScore = 0\<rparr>"

text \<open>The state at the end of that run.\<close>

definition overlapState :: State where
  "overlapState =
     \<lparr>gameEnd = False,
      gameBoard = [whitePiece 2 [mkCube 0 0, mkCube (- 1) 0, mkCube (- 1) 1, mkCube (- 1) 2] 5 18,
                   whitePiece 3 [mkCube 0 0, mkCube (- 1) 0, mkCube (- 1) 1, mkCube (- 1) 2] 6 18],
      currentTetrominos = createTetrominos 1 3,
      score = 0, highScore = 0\<rparr>"

text \<open>
  A run that starts like \<open>overlapRun\<close>, but draws the yellow bar (index 5) when the first
  piece locks: the bar is rotated three times, moved two columns to the left and falls
  to anchor row 17.
\<close>

definition restingRun :: "(Action \<times> nat) list" where
  "restingRun =
     replicate 3 (RotateAction, 1) @ replicate 18 (MoveAction 0 1, 1) @ [(MoveAction 0 1, 5)]
     @ replicate 3 (RotateAction, 1) @ replicate 2 (MoveAction (- 1) 0, 1)
     @ replicate 17 (MoveAction 0 1, 1)"

text \<open>
  The state at the end of \<open>restingRun\<close>: an upright bar in column 3, rows 14 to 17,
  beside the locked white piece; its rotated form lies in row 17, directly on top of
  the cells (4,18) and (5,18).
\<close>

definition rotateRestingState :: State where
  "rotateRestingState =
     \<lparr>gameEnd = False,
      gameBoard = [whitePiece 2 [mkCube 0 0, mkCube (- 1) 0, mkCube (- 1) 1, mkCube (- 1) 2] 5 18],
      currentTetrominos = yellowPiece 3 [mkCube 0 0, mkCube 0 (- 1), mkCube 0 (- 2), mkCube 0 (- 3)] 3 17,
      score = 0, highScore = 0\<rparr>"


text \<open>Five upright bars stacked in column 5: twenty cubes, rows 1 to 20.\<close>

definition fullColumnState :: State where
  "fullColumnState =
     \<lparr>gameEnd = False,
      gameBoard = [yellowPiece 2 [mkCube 0 0, mkCube 0 1, mkCube 0 2, mkCube 0 3] 5 17,
                   yellowPiece 3 [mkCube 0 0, mkCube 0 1, mkCube 0 2, mkCube 0 3] 5 13,
                   yellowPiece 4 [mkCube 0 0, mkCube 0 1, mkCube 0 2, mkCube 0 3] 5 9,
                   yellowPiece 5 [mkCube 0 0, mkCube 0 1, mkCube 0 2, mkCube 0 3] 5 5,
                   yellowPiece 6 [mkCube 0 0, mkCube 0 1, mkCube 0 2, mkCube 0 3] 5 1],
      currentTetrominos = createTetrominos 5 6,
      score = 0, highScore = 0\<rparr>"

text \<open>
  Row 20 is full (two lying bars and the lower half of the square); an upright bar
  anchored at row 16 stands on it in column 3.
\<close>

definition clearRowState :: State where
  "clearRowState =
     \<lparr>gameEnd = False,
      gameBoard = [yellowPiece 2 [mkCube 0 0, mkCube 1 0, mkCube 2 0, mkCube 3 0] 1 20,
                   yellowPiece 3 [mkCube 0 0, mkCube 1 0, mkCube 2 0, mkCube 3 0] 5 20,
                   bluePiece 4 [mkCube 0 0, mkCube 0 (- 1), mkCube 1 0, mkCube 1 (- 1)] 9 20,
                   yellowPiece 5 [mkCube 0 0, mkCube 0 1, mkCube 0 2, mkCube 0 3] 3 16],
      currentTetrominos = createTetrominos 5 6,
      score = 0, highScore = 0\<rparr>"

text \<open>
  A run that reaches \<open>lateClearState\<close>: every piece is the yellow bar but the third,
  the square. The first bar goes four columns to the left, the square four columns to
  the right, and each falls to the floor.
\<close>

definition lateClearRun :: "(Action \<times> nat) list" where
  "lateClearRun =
     replicate 4 (MoveAction (- 1) 0, 5) @ replicate 20 (MoveAction 0 1, 5) @ [(MoveAction 0 1, 5)]
     @ replicate 20 (MoveAction 0 1, 5) @ [(MoveAction 0 1, 4)]
     @ replicate 4 (MoveAction 1 0, 5) @ replicate 20 (MoveAction 0 1, 5)"

text \<open>
  The state two ticks after \<open>lateClearState\<close>: the square has locked, row 20 has been
  cleared and scored, and the next bar has moved down one row.
\<close>

definition lateClearedState :: State where
  "lateClearedState =
     \<lparr>gameEnd = False,
      gameBoard = [yellowPiece 2 [] 1 20, yellowPiece 3 [] 5 20,
                   bluePiece 4 [mkCube 0 (- 1), mkCube 1 (- 1)] 9 20],
      currentTetrominos = yellowPiece 5 [mkCube 0 0, mkCube 1 0, mkCube 2 0, mkCube 3 0] 5 1,
      score = 100, highScore = 0\<rparr>"






definition scoredState :: State where
  "scoredState = (initialState 0)\<lparr>score := 300, highScore := 200\<rparr>"

definition bluePieceState :: State where
  "bluePieceState = initialState 4"


section \<open>Frame lemmas\<close>

lemma highScore_deleteRow: "highScore (deleteRow s rows) = highScore s"
  by (simp add: deleteRow_def)

lemma highScore_nextTetromino: "highScore (nextTetromino r s) = highScore s"
  by (simp add: nextTetromino_def)

lemma moveTetrominos_frame:
  assumes "moveTetrominos s a = Inr s'"
  shows "s' = s\<lparr>currentTetrominos := currentTetrominos s'\<rparr>"
  using assms
  by (cases a)
    (auto simp: moveTetrominos_def rotateTetrominos_def rotatedTetrominosState_def Let_def
      split: if_splits sum.splits)

lemma highScore_moveTetrominos: "moveTetrominos s a = Inr s' \<Longrightarrow> highScore s' = highScore s"
  by (cases a)
    (auto simp: moveTetrominos_def rotateTetrominos_def rotatedTetrominosState_def Let_def
      split: if_splits sum.splits)

lemma score_moveTetrominos: "moveTetrominos s a = Inr s' \<Longrightarrow> score s' = score s"
  by (cases a)
    (auto simp: moveTetrominos_def rotateTetrominos_def rotatedTetrominosState_def Let_def
      split: if_splits sum.splits)

lemma moveTetrominos_total:
  assumes "isTouchingFloor (currentTetrominos s) = Inr b"
  shows "\<exists>s'. moveTetrominos s a = Inr s'"
  using assms by (cases a) (auto simp: moveTetrominos_def Let_def)

lemma setTetromino_Inr_False:
  "setTetromino s a = Inr False \<Longrightarrow> isTouchingFloor (currentTetrominos s) = Inr False"
  by (auto simp: setTetromino_def split: sum.splits if_splits)

section \<open>The transition function, branch by branch\<close>

lemma updateState_Restart:
  "updateState d s Restart r = Inr ((initialState d)\<lparr>highScore := max (score s) (highScore s)\<rparr>)"
  by (simp add: updateState_def max_def)

lemma updateState_isGameEnd:
  "isGameEnd s \<Longrightarrow> a \<noteq> Restart \<Longrightarrow> updateState d s a r = Inr (s\<lparr>gameEnd := True\<rparr>)"
  by (simp add: updateState_def)

lemma updateState_highScore_mono:
  assumes "updateState d s a r = Inr s'"
  shows "highScore s \<le> highScore s'"
proof (cases "a = Restart")
  case True
  with assms show ?thesis by (auto simp: updateState_Restart)
next
  case False
  with assms show ?thesis
    by (auto simp: updateState_def Let_def highScore_deleteRow highScore_nextTetromino
        split: if_splits sum.splits dest: highScore_moveTetrominos)
qed

lemma updateState_score_nonneg:
  assumes "updateState d s a r = Inr s'" and "0 \<le> score s"
  shows "0 \<le> score s'"
proof (cases "a = Restart")
  case True
  with assms show ?thesis by (auto simp: updateState_Restart initialState_def)
next
  case False
  with assms show ?thesis
    by (auto simp: updateState_def Let_def deleteRow_def nextTetromino_def
        split: if_splits sum.splits dest: score_moveTetrominos)
qed



lemma isGameEnd_gameEnd_update: "isGameEnd (s\<lparr>gameEnd := b\<rparr>) = isGameEnd s"
  by (simp add: isGameEnd_def)

lemma scan_isGameEnd:
  "isGameEnd s \<Longrightarrow> list_all (\<lambda>p. fst p \<noteq> Restart) as \<Longrightarrow>
   scan d s as = Inr (if as = [] then s else s\<lparr>gameEnd := True\<rparr>)"
proof (induction as arbitrary: s)
  case Nil
  then show ?case by simp
next
  case (Cons p as)
  obtain a r where p: "p = (a, r)" by (cases p)
  from Cons.prems p have a: "a \<noteq> Restart" and rest: "list_all (\<lambda>p. fst p \<noteq> Restart) as"
    by simp_all
  have step: "updateState d s a r = Inr (s\<lparr>gameEnd := True\<rparr>)"
    using Cons.prems(1) a by (rule updateState_isGameEnd)
  have "isGameEnd (s\<lparr>gameEnd := True\<rparr>)"
    using Cons.prems(1) by (simp add: isGameEnd_gameEnd_update)
  from Cons.IH[OF this rest] show ?case
    by (simp add: p step)
qed

section \<open>Runs and reachable states\<close>

lemma scan_reachable:
  "reachable d s \<Longrightarrow> list_all (\<lambda>p. fst p \<in> set streamActions \<and> snd p < 7) as \<Longrightarrow>
   scan d s as = Inr s' \<Longrightarrow> reachable d s'"
proof (induction as arbitrary: s)
  case Nil
  then show ?case by simp
next
  case (Cons p as)
  obtain a r where p: "p = (a, r)" by (cases p)
  from Cons.prems(3) p obtain s1
    where s1: "updateState d s a r = Inr s1" and rest: "scan d s1 as = Inr s'"
    by (auto split: sum.splits)
  from Cons.prems(2) p have a: "a \<in> set streamActions" and r: "r < 7"
    and as: "list_all (\<lambda>p. fst p \<in> set streamActions \<and> snd p < 7) as"
    by simp_all
  have "reachable d s1" using Cons.prems(1) a r s1 by (rule reachable_step)
  from Cons.IH[OF this as rest] show ?case .
qed

lemma reachable_scores: "reachable d s \<Longrightarrow> 0 \<le> score s \<and> 0 \<le> highScore s"
proof (induction rule: reachable.induct)
  case reachable_init
  show ?case by (simp add: initialState_def)
next
  case (reachable_step s action randIndex s')
  have sc: "0 \<le> score s'"
    using reachable_step.hyps(4) reachable_step.IH by (auto intro: updateState_score_nonneg)
  have "highScore s \<le> highScore s'"
    using reachable_step.hyps(4) by (rule updateState_highScore_mono)
  with sc reachable_step.IH show ?case by simp
qed

lemma overlapRun_scan: "scan 1 (initialState 1) overlapRun = Inr overlapState"
  by code_simp

lemma overlapRun_stream: "list_all (\<lambda>p. fst p \<in> set streamActions \<and> snd p < 7) overlapRun"
  by code_simp

lemma overlapRun_prefix_scan: "scan 1 (initialState 1) (take 43 overlapRun) = Inr rotateOverlapState"
  by code_simp

lemma overlapRun_prefix_stream:
  "list_all (\<lambda>p. fst p \<in> set streamActions \<and> snd p < 7) (take 43 overlapRun)"
  by code_simp

lemma restingRun_scan: "scan 1 (initialState 1) restingRun = Inr rotateRestingState"
  by code_simp

lemma restingRun_stream: "list_all (\<lambda>p. fst p \<in> set streamActions \<and> snd p < 7) restingRun"
  by code_simp



lemma lateClearedRun_scan:
  "scan 5 (initialState 5) (lateClearRun @ [(MoveAction 0 1, 5), (MoveAction 0 1, 5)])
     = Inr lateClearedState"
  by code_simp

lemma lateClearedRun_stream:
  "list_all (\<lambda>p. fst p \<in> set streamActions \<and> snd p < 7)
     (lateClearRun @ [(MoveAction 0 1, 5), (MoveAction 0 1, 5)])"
  by code_simp



section \<open>Counting cubes\<close>

lemma foldl_count:
  "foldl (\<lambda>accumulator t. accumulator + int (f t)) a board = a + int (sum_list (map f board))"
  by (induction board arbitrary: a) simp_all

lemma length_filter_concat:
  "length (filter P (concat xss)) = sum_list (map (\<lambda>xs. length (filter P xs)) xss)"
  by (induction xss) simp_all

lemma count_row_absoluteCubes:
  "length (filter (\<lambda>p. snd p = r) (absoluteCubes board)) =
   sum_list (map (\<lambda>t. length (filter (\<lambda>cube. t_y t + cube_y cube = r) (cubes t))) board)"
  by (simp add: absoluteCubes_def length_filter_concat filter_map o_def)

lemma count_col_absoluteCubes:
  "length (filter (\<lambda>p. fst p = c) (absoluteCubes board)) =
   sum_list (map (\<lambda>t. length (filter (\<lambda>cube. t_x t + cube_x cube = c) (cubes t))) board)"
  by (simp add: absoluteCubes_def length_filter_concat filter_map o_def)

lemma isRowFull_count:
  "isRowFull board r \<longleftrightarrow> length (filter (\<lambda>p. snd p = r) (absoluteCubes board)) = 10"
  unfolding isRowFull_def Let_def foldl_count count_row_absoluteCubes GRID_WIDTH_def
  by simp

lemma isColFull_count:
  "isColFull board c \<longleftrightarrow> length (filter (\<lambda>p. fst p = c) (absoluteCubes board)) \<ge> 20"
  unfolding isColFull_def Let_def foldl_count count_col_absoluteCubes GRID_HEIGHT_def
  by simp

lemma columns_set: "set (map (\<lambda>index. int index + 1) [0..<nat GRID_WIDTH]) = {1..GRID_WIDTH}"
proof -
  have "(\<lambda>index. int index + 1) ` {0..<nat GRID_WIDTH} = {1..GRID_WIDTH}"
  proof (rule set_eqI, rule iffI)
    fix c assume "c \<in> (\<lambda>index. int index + 1) ` {0..<nat GRID_WIDTH}"
    then show "c \<in> {1..GRID_WIDTH}" by (auto simp: GRID_WIDTH_def)
  next
    fix c assume c: "c \<in> {1..GRID_WIDTH}"
    then have "c = int (nat (c - 1)) + 1" and "nat (c - 1) \<in> {0..<nat GRID_WIDTH}"
      by (auto simp: GRID_WIDTH_def)
    then show "c \<in> (\<lambda>index. int index + 1) ` {0..<nat GRID_WIDTH}" by (rule image_eqI)
  qed
  then show ?thesis by simp
qed

lemma isGameEnd_iff: "isGameEnd s \<longleftrightarrow> (\<exists>c\<in>{1..GRID_WIDTH}. isColFull (gameBoard s) c)"
  unfolding isGameEnd_def Let_def list_ex_iff columns_set by simp

section \<open>Rotation\<close>

lemma rotateCube4: "rotateCube (rotateCube (rotateCube (rotateCube c))) = c"
  by (simp add: rotateCube_def)

lemma rotateCube4_comp: "rotateCube \<circ> (rotateCube \<circ> (rotateCube \<circ> rotateCube)) = id"
  by (rule ext) (simp add: rotateCube4)

lemma map_rotateCube4: "map rotateCube (map rotateCube (map rotateCube (map rotateCube cs))) = cs"
  by (simp add: rotateCube4_comp)

lemma rotatedTetrominosState4:
  "rotatedTetrominosState (rotatedTetrominosState (rotatedTetrominosState (rotatedTetrominosState s))) = s"
  by (simp add: rotatedTetrominosState_def rotateCube4_comp)

lemma rotate_blue: "color (currentTetrominos s) = ''blue'' \<Longrightarrow> rotateTetrominos s a = s"
  by (simp add: rotateTetrominos_def)

lemma in_absoluteCubes:
  "(a, b) \<in> set (absoluteCubes board) \<longleftrightarrow>
     (\<exists>t\<in>set board. \<exists>c\<in>set (cubes t). t_x t + cube_x c = a \<and> t_y t + cube_y c = b)"
  by (auto simp: absoluteCubes_def)

text \<open>
  With \<open>withMovement = false\<close> the collision test looks at the cell one row below each
  cube of the current piece, whatever the action.
\<close>

lemma isColliding_probe:
  "isColliding s m False \<longleftrightarrow>
     (\<exists>cube\<in>set (cubes (currentTetrominos s)).
        (t_x (currentTetrominos s) + cube_x cube, t_y (currentTetrominos s) + cube_y cube + 1)
          \<in> set (absoluteCubes (gameBoard s)))"
  by (simp add: isColliding_def list_ex_iff in_absoluteCubes)

text \<open>With \<open>withMovement = true\<close> it looks at the cells the movement leads to.\<close>

lemma isColliding_target:
  "isColliding s m True \<longleftrightarrow>
     (\<exists>cube\<in>set (cubes (currentTetrominos s)).
        (t_x (currentTetrominos s) + cube_x cube + action_x m,
         t_y (currentTetrominos s) + cube_y cube + action_y m)
          \<in> set (absoluteCubes (gameBoard s)))"
  by (simp add: isColliding_def list_ex_iff in_absoluteCubes)

text \<open>
  What \<open>rotateTetrominos\<close> computes: the rotated form is taken exactly when the piece is
  not blue, no cell one row below a cube of the rotated form is a board cell, and the
  rotated form satisfies the border predicate; in every other case the state is
  returned as it was.
\<close>

lemma rotateTetrominos_behaviour:
  "rotateTetrominos s RotateAction =
     (if color (currentTetrominos s) \<noteq> ''blue''
         \<and> \<not> (\<exists>cube\<in>set (cubes (currentTetrominos (rotatedTetrominosState s))).
                (t_x (currentTetrominos s) + cube_x cube, t_y (currentTetrominos s) + cube_y cube + 1)
                  \<in> set (absoluteCubes (gameBoard s)))
         \<and> isInBorder (currentTetrominos (rotatedTetrominosState s)) RotateAction
      then rotatedTetrominosState s else s)"
  unfolding rotateTetrominos_def isColliding_probe
  by (simp add: rotatedTetrominosState_def)

section \<open>Row deletion\<close>

lemma deleteRow_board: "gameBoard (deleteRow s rows) = map (clearedPiece rows) (gameBoard s)"
  by (simp add: deleteRow_def clearedPiece_def Let_def o_def)

section \<open>The claims\<close>

text \<open>
  C1. Claimed: in every state reachable from the initial state, the absolute positions
  of the cubes of the board pieces are pairwise different. The run \<open>overlapRun\<close> from
  the initial state, all its draws being the white piece, ends in a state whose board
  holds the cell (5,18) twice: the second piece is rotated at anchor (6,18) into the
  cell (5,18) of the locked first piece, because the rotation is tested one row too
  low, and it locks there on the next tick.
\<close>

theorem locked_cubes_overlap_reachable:
  "scan 1 (initialState 1) overlapRun = Inr overlapState
   \<and> reachable 1 overlapState
   \<and> count_list (absoluteCubes (gameBoard overlapState)) (5, 18) = 2
   \<and> \<not> distinct (absoluteCubes (gameBoard overlapState))"
proof -
  have r: "reachable 1 overlapState"
    using reachable_init overlapRun_stream overlapRun_scan by (rule scan_reachable)
  have c: "count_list (absoluteCubes (gameBoard overlapState)) (5, 18) = 2"
    by code_simp
  have d: "\<not> distinct (absoluteCubes (gameBoard overlapState))"
    by code_simp
  from overlapRun_scan r c d show ?thesis by blast
qed

text \<open>
  C2. Claimed: for a piece that is not the square, the rotated form becomes the current
  piece exactly when it meets no board cube at its own cells and satisfies the border
  predicate. Both states below are reachable. In \<open>rotateOverlapState\<close> the rotated form
  covers the board cell (5,18) and is accepted all the same, by \<open>rotateTetrominos\<close> and
  by \<open>updateState\<close>. In \<open>rotateRestingState\<close> the rotated form meets no board cell and
  is within the border, and is refused, because the cells one row below it are
  occupied.
\<close>

theorem rotation_tested_one_row_below:
  "reachable 1 rotateOverlapState
   \<and> reachable 1 rotateRestingState
   \<and> color (currentTetrominos rotateOverlapState) \<noteq> ''blue''
   \<and> rotateTetrominos rotateOverlapState RotateAction = rotatedTetrominosState rotateOverlapState
   \<and> updateState 1 rotateOverlapState RotateAction 1 = Inr (rotatedTetrominosState rotateOverlapState)
   \<and> (5, 18) \<in> set (absoluteCubes [currentTetrominos (rotatedTetrominosState rotateOverlapState)])
   \<and> (5, 18) \<in> set (absoluteCubes (gameBoard rotateOverlapState))
   \<and> color (currentTetrominos rotateRestingState) \<noteq> ''blue''
   \<and> list_all (\<lambda>p. p \<notin> set (absoluteCubes (gameBoard rotateRestingState)))
        (absoluteCubes [currentTetrominos (rotatedTetrominosState rotateRestingState)])
   \<and> isInBorder (currentTetrominos (rotatedTetrominosState rotateRestingState)) RotateAction
   \<and> rotateTetrominos rotateRestingState RotateAction = rotateRestingState
   \<and> updateState 1 rotateRestingState RotateAction 1 = Inr rotateRestingState"
proof -
  have r1: "reachable 1 rotateOverlapState"
    using reachable_init overlapRun_prefix_stream overlapRun_prefix_scan by (rule scan_reachable)
  have r2: "reachable 1 rotateRestingState"
    using reachable_init restingRun_stream restingRun_scan by (rule scan_reachable)
  have ev: "color (currentTetrominos rotateOverlapState) \<noteq> ''blue''
   \<and> rotateTetrominos rotateOverlapState RotateAction = rotatedTetrominosState rotateOverlapState
   \<and> updateState 1 rotateOverlapState RotateAction 1 = Inr (rotatedTetrominosState rotateOverlapState)
   \<and> (5, 18) \<in> set (absoluteCubes [currentTetrominos (rotatedTetrominosState rotateOverlapState)])
   \<and> (5, 18) \<in> set (absoluteCubes (gameBoard rotateOverlapState))
   \<and> color (currentTetrominos rotateRestingState) \<noteq> ''blue''
   \<and> list_all (\<lambda>p. p \<notin> set (absoluteCubes (gameBoard rotateRestingState)))
        (absoluteCubes [currentTetrominos (rotatedTetrominosState rotateRestingState)])
   \<and> isInBorder (currentTetrominos (rotatedTetrominosState rotateRestingState)) RotateAction
   \<and> rotateTetrominos rotateRestingState RotateAction = rotateRestingState
   \<and> updateState 1 rotateRestingState RotateAction 1 = Inr rotateRestingState"
    by code_simp
  from r1 r2 ev show ?thesis by blast
qed

text \<open>
  C3. When \<open>isGameEnd s\<close> holds, every action other than \<open>Restart\<close> returns \<open>s\<close> with
  \<open>gameEnd\<close> set to true and nothing else changed; and so does every non-empty sequence
  of such actions: the board, the piece, the score and the high score stay frozen.
\<close>

theorem game_over_is_terminal:
  assumes "isGameEnd s"
  shows "(a \<noteq> Restart \<longrightarrow> updateState d s a r = Inr (s\<lparr>gameEnd := True\<rparr>))
       \<and> (list_all (\<lambda>p. fst p \<noteq> Restart) as \<longrightarrow>
            scan d s as = Inr (if as = [] then s else s\<lparr>gameEnd := True\<rparr>))"
  using assms updateState_isGameEnd scan_isGameEnd by blast

theorem game_over_is_terminal_witness:
  "isGameEnd fullColumnState
   \<and> updateState 5 fullColumnState (MoveAction 0 1) 0 = Inr (fullColumnState\<lparr>gameEnd := True\<rparr>)
   \<and> scan 5 fullColumnState [(MoveAction 0 1, 0), (RotateAction, 1), (MoveAction (- 1) 0, 2)]
       = Inr (fullColumnState\<lparr>gameEnd := True\<rparr>)"
proof -
  have e: "isGameEnd fullColumnState" by code_simp
  from game_over_is_terminal [OF e, of "MoveAction 0 1" 5 0
      "[(MoveAction 0 1, 0), (RotateAction, 1), (MoveAction (- 1) 0, 2)]"]
  show ?thesis using e by (simp del: scan.simps)
qed

text \<open>
  C4. \<open>Restart\<close> from any state returns \<open>initialState\<close> with \<open>highScore\<close> replaced by the
  maximum of the old score and the old high score: the score is 0, the board is empty,
  \<open>gameEnd\<close> is false. No transition, whatever the action, lowers \<open>highScore\<close>.
\<close>

theorem restart_resets_to_initialState:
  "updateState d s Restart r = Inr ((initialState d)\<lparr>highScore := max (score s) (highScore s)\<rparr>)
   \<and> score ((initialState d)\<lparr>highScore := max (score s) (highScore s)\<rparr>) = 0
   \<and> gameBoard ((initialState d)\<lparr>highScore := max (score s) (highScore s)\<rparr>) = []
   \<and> gameEnd ((initialState d)\<lparr>highScore := max (score s) (highScore s)\<rparr>) = False
   \<and> (\<forall>a s'. updateState d s a r = Inr s' \<longrightarrow> highScore s \<le> highScore s')"
  using updateState_highScore_mono
  by (auto simp: updateState_Restart initialState_def initialGameBoard_def)

theorem restart_resets_to_initialState_witness:
  "updateState 0 scoredState Restart 3 = Inr ((initialState 0)\<lparr>highScore := 300\<rparr>)
   \<and> highScore scoredState \<le> highScore ((initialState 0)\<lparr>highScore := 300\<rparr>)"
  using restart_resets_to_initialState [of 0 scoredState 3]
  by (simp add: scoredState_def)




text \<open>
  C6. \<open>deleteRow s rows\<close> maps every board piece to \<open>clearedPiece rows\<close> of it: the cubes
  whose absolute row is in \<open>rows\<close> are removed and the anchor row grows by the number of
  elements of \<open>rows\<close> strictly greater than it. The board keeps its length and, in
  order, the ids, colours and anchor columns of its pieces (a piece left without cubes
  stays in it), the score grows by 100 times the length of \<open>rows\<close>, and the current
  piece, the high score and \<open>gameEnd\<close> are unchanged.
\<close>

theorem deleteRow_effect:
  "gameBoard (deleteRow s rows) = map (clearedPiece rows) (gameBoard s)
   \<and> length (gameBoard (deleteRow s rows)) = length (gameBoard s)
   \<and> map t_id (gameBoard (deleteRow s rows)) = map t_id (gameBoard s)
   \<and> map color (gameBoard (deleteRow s rows)) = map color (gameBoard s)
   \<and> map t_x (gameBoard (deleteRow s rows)) = map t_x (gameBoard s)
   \<and> score (deleteRow s rows) = score s + 100 * int (length rows)
   \<and> currentTetrominos (deleteRow s rows) = currentTetrominos s
   \<and> highScore (deleteRow s rows) = highScore s
   \<and> gameEnd (deleteRow s rows) = gameEnd s"
proof -
  have board: "gameBoard (deleteRow s rows) = map (clearedPiece rows) (gameBoard s)"
    by (rule deleteRow_board)
  have kept: "map t_id (map (clearedPiece rows) (gameBoard s)) = map t_id (gameBoard s)
      \<and> map color (map (clearedPiece rows) (gameBoard s)) = map color (gameBoard s)
      \<and> map t_x (map (clearedPiece rows) (gameBoard s)) = map t_x (gameBoard s)"
    by (simp add: clearedPiece_def o_def)
  have rest: "score (deleteRow s rows) = score s + 100 * int (length rows)
      \<and> currentTetrominos (deleteRow s rows) = currentTetrominos s
      \<and> highScore (deleteRow s rows) = highScore s
      \<and> gameEnd (deleteRow s rows) = gameEnd s"
    by (simp add: deleteRow_def Let_def)
  from board kept rest show ?thesis by simp
qed

theorem deleteRow_effect_witness:
  "gameBoard (deleteRow clearRowState [20]) =
     [yellowPiece 2 [] 1 20, yellowPiece 3 [] 5 20,
      bluePiece 4 [mkCube 0 (- 1), mkCube 1 (- 1)] 9 20,
      yellowPiece 5 [mkCube 0 0, mkCube 0 1, mkCube 0 2, mkCube 0 3] 3 17]
   \<and> score (deleteRow clearRowState [20]) = 100
   \<and> currentTetrominos (deleteRow clearRowState [20]) = currentTetrominos clearRowState"
proof -
  have "map (clearedPiece [20]) (gameBoard clearRowState) =
     [yellowPiece 2 [] 1 20, yellowPiece 3 [] 5 20,
      bluePiece 4 [mkCube 0 (- 1), mkCube 1 (- 1)] 9 20,
      yellowPiece 5 [mkCube 0 0, mkCube 0 1, mkCube 0 2, mkCube 0 3] 3 17]"
    by code_simp
  moreover have "score clearRowState = 0"
    by (simp add: clearRowState_def)
  ultimately show ?thesis
    using deleteRow_effect [of clearRowState "[20]"] by simp
qed

text \<open>
  C7. \<open>isRowFull board r\<close> holds iff exactly 10 board cubes have absolute row \<open>r\<close>;
  \<open>isColFull board c\<close> holds iff at least 20 board cubes have absolute column \<open>c\<close>;
  \<open>isGameEnd s\<close> holds iff some column from 1 to \<open>GRID_WIDTH\<close> is full in that sense.
\<close>

theorem fullness_predicates_count_cubes:
  "(isRowFull board r \<longleftrightarrow> length (filter (\<lambda>p. snd p = r) (absoluteCubes board)) = 10)
   \<and> (isColFull board c \<longleftrightarrow> length (filter (\<lambda>p. fst p = c) (absoluteCubes board)) \<ge> 20)
   \<and> (isGameEnd s \<longleftrightarrow> (\<exists>col\<in>{1..GRID_WIDTH}. isColFull (gameBoard s) col))"
  using isRowFull_count isColFull_count isGameEnd_iff by blast

theorem fullness_predicates_count_cubes_witness:
  "isRowFull (gameBoard clearRowState) 20
   \<and> \<not> isRowFull (gameBoard clearRowState) 19
   \<and> isColFull (gameBoard fullColumnState) 5
   \<and> isGameEnd fullColumnState"
proof -
  have r20: "length (filter (\<lambda>p. snd p = 20) (absoluteCubes (gameBoard clearRowState))) = 10"
    by code_simp
  have r19: "length (filter (\<lambda>p. snd p = 19) (absoluteCubes (gameBoard clearRowState))) = 3"
    by code_simp
  have c5: "length (filter (\<lambda>p. fst p = 5) (absoluteCubes (gameBoard fullColumnState))) = 20"
    by code_simp
  have five: "(5::int) \<in> {1..GRID_WIDTH}"
    by (simp add: GRID_WIDTH_def)
  have a: "isRowFull (gameBoard clearRowState) 20"
    using fullness_predicates_count_cubes [where board = "gameBoard clearRowState" and r = 20] r20 by simp
  have b: "\<not> isRowFull (gameBoard clearRowState) 19"
    using fullness_predicates_count_cubes [where board = "gameBoard clearRowState" and r = 19] r19 by simp
  have c: "isColFull (gameBoard fullColumnState) 5"
    using fullness_predicates_count_cubes [where board = "gameBoard fullColumnState" and c = 5] c5 by simp
  have "isGameEnd fullColumnState"
    using fullness_predicates_count_cubes [where s = fullColumnState] c five by blast
  with a b c show ?thesis by blast
qed

text \<open>
  C8. Replacing every cube \<open>(x, y)\<close> by \<open>(-y, x)\<close> four times gives back the cube
  sequence, and the state with the piece so rotated four times is the state itself.
  For the blue piece the rotation function returns the state unchanged, and so does the
  whole transition on a \<open>Rotate\<close> action whenever it neither ends the game, nor locks
  the piece, nor clears a row.
\<close>

theorem rotation_has_order_four:
  "map rotateCube (map rotateCube (map rotateCube (map rotateCube cs))) = cs
   \<and> rotatedTetrominosState (rotatedTetrominosState
        (rotatedTetrominosState (rotatedTetrominosState s))) = s
   \<and> (color (currentTetrominos s) = ''blue'' \<longrightarrow>
        rotateTetrominos s RotateAction = s \<and> moveTetrominos s RotateAction = Inr s)
   \<and> (color (currentTetrominos s) = ''blue'' \<and> \<not> isGameEnd s
        \<and> setTetromino s RotateAction = Inr False \<and> getFullRows s = [] \<longrightarrow>
        updateState d s RotateAction r = Inr s)"
proof -
  have blue: "color (currentTetrominos s) = ''blue'' \<longrightarrow>
        rotateTetrominos s RotateAction = s \<and> moveTetrominos s RotateAction = Inr s"
    by (simp add: moveTetrominos_def rotate_blue)
  have step: "color (currentTetrominos s) = ''blue'' \<and> \<not> isGameEnd s
        \<and> setTetromino s RotateAction = Inr False \<and> getFullRows s = [] \<longrightarrow>
        updateState d s RotateAction r = Inr s"
    by (simp add: updateState_def moveTetrominos_def rotate_blue)
  from map_rotateCube4 rotatedTetrominosState4 blue step show ?thesis by blast
qed

theorem rotation_has_order_four_witness:
  "map rotateCube (map rotateCube (map rotateCube (map rotateCube
      [mkCube 0 0, mkCube 0 (- 1), mkCube (- 1) (- 1), mkCube (- 2) (- 1)])))
     = [mkCube 0 0, mkCube 0 (- 1), mkCube (- 1) (- 1), mkCube (- 2) (- 1)]
   \<and> map rotateCube [mkCube 0 0, mkCube 0 (- 1), mkCube (- 1) (- 1), mkCube (- 2) (- 1)]
     = [mkCube 0 0, mkCube 1 0, mkCube 1 (- 1), mkCube 1 (- 2)]
   \<and> color (currentTetrominos bluePieceState) = ''blue''
   \<and> rotateTetrominos bluePieceState RotateAction = bluePieceState
   \<and> moveTetrominos bluePieceState RotateAction = Inr bluePieceState
   \<and> updateState 4 bluePieceState RotateAction 0 = Inr bluePieceState"
proof -
  have b: "color (currentTetrominos bluePieceState) = ''blue''" by code_simp
  have r1: "map rotateCube [mkCube 0 0, mkCube 0 (- 1), mkCube (- 1) (- 1), mkCube (- 2) (- 1)]
     = [mkCube 0 0, mkCube 1 0, mkCube 1 (- 1), mkCube 1 (- 2)]"
    by (simp add: rotateCube_def mkCube_def)
  have e: "\<not> isGameEnd bluePieceState" by code_simp
  have l: "setTetromino bluePieceState RotateAction = Inr False" by code_simp
  have f: "getFullRows bluePieceState = []" by code_simp
  from rotation_has_order_four
    [of "[mkCube 0 0, mkCube 0 (- 1), mkCube (- 1) (- 1), mkCube (- 2) (- 1)]" bluePieceState 4 0]
  show ?thesis using b r1 e l f by blast
qed

text \<open>
  C9. When the game has not ended, the piece neither touches the floor nor is stopped
  by the probe one row below, and the board has no full row, a \<open>Move\<close> or \<open>Rotate\<close>
  action returns a state that differs from the given one in \<open>currentTetrominos\<close> at
  most: board, score, high score and \<open>gameEnd\<close> are the same.
\<close>

theorem move_rotate_change_piece_only:
  assumes "\<not> isGameEnd s" and "setTetromino s a = Inr False" and "getFullRows s = []"
    and "a \<noteq> Restart"
  shows "\<exists>s'. updateState d s a r = Inr s' \<and> s' = s\<lparr>currentTetrominos := currentTetrominos s'\<rparr>
           \<and> gameBoard s' = gameBoard s \<and> score s' = score s
           \<and> highScore s' = highScore s \<and> gameEnd s' = gameEnd s"
proof -
  from assms(2) have "isTouchingFloor (currentTetrominos s) = Inr False"
    by (rule setTetromino_Inr_False)
  then obtain s' where mv: "moveTetrominos s a = Inr s'"
    using moveTetrominos_total by blast
  then have fr: "s' = s\<lparr>currentTetrominos := currentTetrominos s'\<rparr>"
    by (rule moveTetrominos_frame)
  have "updateState d s a r = Inr s'"
    using assms mv by (simp add: updateState_def)
  moreover have "gameBoard s' = gameBoard s \<and> score s' = score s
           \<and> highScore s' = highScore s \<and> gameEnd s' = gameEnd s"
    by (subst fr, simp)+
  ultimately show ?thesis using fr by blast
qed

theorem move_rotate_change_piece_only_witness:
  "\<not> isGameEnd (initialState 1)
   \<and> setTetromino (initialState 1) (MoveAction 0 1) = Inr False
   \<and> getFullRows (initialState 1) = []
   \<and> (\<exists>s'. updateState 1 (initialState 1) (MoveAction 0 1) 0 = Inr s'
         \<and> t_y (currentTetrominos s') = 1
         \<and> gameBoard s' = gameBoard (initialState 1) \<and> score s' = score (initialState 1)
         \<and> highScore s' = highScore (initialState 1) \<and> gameEnd s' = gameEnd (initialState 1))"
proof -
  have e: "\<not> isGameEnd (initialState 1)" by code_simp
  have l: "setTetromino (initialState 1) (MoveAction 0 1) = Inr False" by code_simp
  have f: "getFullRows (initialState 1) = []" by code_simp
  have y: "\<And>s'. updateState 1 (initialState 1) (MoveAction 0 1) 0 = Inr s'
             \<Longrightarrow> t_y (currentTetrominos s') = 1"
  proof -
    fix s' assume s': "updateState 1 (initialState 1) (MoveAction 0 1) 0 = Inr s'"
    have "t_y (currentTetrominos (projr (updateState 1 (initialState 1) (MoveAction 0 1) 0))) = 1"
      by code_simp
    with s' show "t_y (currentTetrominos s') = 1" by simp
  qed
  from move_rotate_change_piece_only [OF e l f, of 1 0] y e l f
  show ?thesis by auto
qed

text \<open>
  C10. Two \<open>Restart\<close> transitions in a row give the same state as one, for every state
  of a run, and more generally for every state whose score or high score is not
  negative, whatever the draws offered to the two transitions. The result does not
  depend on the draw, and its current piece is the piece of \<open>initialState\<close>, made by the
  one draw at start-up, with id 2.
\<close>

theorem restart_idempotent:
  assumes "reachable d s \<or> 0 \<le> score s \<or> 0 \<le> highScore s"
  shows "updateState d (projr (updateState d s Restart r)) Restart r' = updateState d s Restart r
       \<and> updateState d s Restart r = updateState d s Restart r'
       \<and> currentTetrominos (projr (updateState d s Restart r)) = currentTetrominos (initialState d)
       \<and> currentTetrominos (projr (updateState d s Restart r)) = createTetrominos d 1
       \<and> t_id (currentTetrominos (projr (updateState d s Restart r))) = 2"
proof -
  from assms have "0 \<le> score s \<or> 0 \<le> highScore s"
    using reachable_scores by blast
  then show ?thesis
    by (auto simp: updateState_Restart initialState_def createTetrominos_def max_def)
qed

theorem restart_idempotent_witness:
  "reachable 5 lateClearedState
   \<and> updateState 5 (projr (updateState 5 lateClearedState Restart 1)) Restart 2
       = updateState 5 lateClearedState Restart 1
   \<and> highScore (projr (updateState 5 lateClearedState Restart 1)) = 100
   \<and> score (projr (updateState 5 lateClearedState Restart 1)) = 0
   \<and> currentTetrominos (projr (updateState 5 lateClearedState Restart 1))
       = currentTetrominos (initialState 5)
   \<and> t_id (currentTetrominos (projr (updateState 5 lateClearedState Restart 1))) = 2"
proof -
  have rch: "reachable 5 lateClearedState"
    using reachable_init lateClearedRun_stream lateClearedRun_scan by (rule scan_reachable)
  then have h: "reachable 5 lateClearedState \<or> 0 \<le> score lateClearedState
      \<or> 0 \<le> highScore lateClearedState"
    by simp
  have hs: "highScore (projr (updateState 5 lateClearedState Restart 1)) = 100
      \<and> score (projr (updateState 5 lateClearedState Restart 1)) = 0"
    by (simp add: updateState_Restart lateClearedState_def initialState_def)
  from restart_idempotent [OF h, of 1 2] rch hs show ?thesis by blast
qed

end
